theory Spec2Isabelle
  imports Main "HOL-Library.List_Lexorder" "HOL-Library.Product_Lexorder" "HOL-Library.Multiset"
begin

section \<open>Python strings and the string library\<close>

text \<open>
  A Python \<open>str\<close> is a sequence of Unicode code points, so it is modelled as a list of
  naturals (not as a byte string): the normalizer decomposes and deletes code points
  beyond ASCII, and its behaviour there matters. \<open>str\<close> turns an ASCII literal into
  such a list.
\<close>

type_synonym pystr = "nat list"

definition str :: "string \<Rightarrow> pystr" where
  "str s = map of_char s"

text \<open>
  The tables of the Unicode character database behind \<open>str.lower\<close>, \<open>str.strip\<close>,
  \<open>str.split\<close>, the regular expression class \<open>\s\<close>, \<open>unicodedata.normalize\<close> and
  \<open>unicodedata.combining\<close> are not part of the repository. They are a parameter of the
  model. \<open>py_isspace\<close> is the whitespace predicate shared by \<open>strip\<close>, \<open>split\<close> and
  \<open>\s\<close>; \<open>py_lower\<close> and \<open>nfkd\<close> act on whole strings, because lowercasing is
  context sensitive (final sigma) and decomposition reorders combining marks.
\<close>

record unicode_lib =
  py_isspace :: "nat \<Rightarrow> bool"
  py_lower :: "pystr \<Rightarrow> pystr"
  nfkd :: "pystr \<Rightarrow> pystr"
  combining :: "nat \<Rightarrow> nat"

text \<open>\<open>s.strip()\<close>: drop the leading and the trailing whitespace.\<close>

definition py_strip :: "unicode_lib \<Rightarrow> pystr \<Rightarrow> pystr" where
  "py_strip L s = rev (dropWhile (py_isspace L) (rev (dropWhile (py_isspace L) s)))"

text \<open>\<open>s.split()\<close>: the maximal runs of characters that are not whitespace.\<close>

function py_split :: "unicode_lib \<Rightarrow> pystr \<Rightarrow> pystr list" where
  "py_split L s =
     (case dropWhile (py_isspace L) s of
        [] \<Rightarrow> []
      | c # cs \<Rightarrow> (c # takeWhile (\<lambda>x. \<not> py_isspace L x) cs)
                 # py_split L (dropWhile (\<lambda>x. \<not> py_isspace L x) cs))"
  by pat_completeness auto
termination
proof (relation "measure (\<lambda>(L, s). length s)")
  show "wf (measure (\<lambda>(L, s). length s))" by simp
next
  fix L :: unicode_lib and s :: pystr and c cs
  assume h: "dropWhile (py_isspace L) s = c # cs"
  have "length (dropWhile (\<lambda>x. \<not> py_isspace L x) cs) \<le> length cs"
    by (rule length_dropWhile_le)
  moreover have "length (c # cs) \<le> length s"
    using length_dropWhile_le [of "py_isspace L" s] h by simp
  ultimately show "((L, dropWhile (\<lambda>x. \<not> py_isspace L x) cs), (L, s))
      \<in> measure (\<lambda>(L, s). length s)"
    by simp
qed

text \<open>\<open>sep.join(items)\<close>.\<close>

fun py_join :: "pystr \<Rightarrow> pystr list \<Rightarrow> pystr" where
  "py_join sep [] = []"
| "py_join sep [x] = x"
| "py_join sep (x # y # ys) = x @ sep @ py_join sep (y # ys)"

text \<open>\<open>re.sub(r"\s+", " ", text)\<close>: every maximal whitespace run becomes one space.\<close>

function re_sub_spaces :: "unicode_lib \<Rightarrow> pystr \<Rightarrow> pystr" where
  "re_sub_spaces L [] = []"
| "re_sub_spaces L (c # cs) =
     (if py_isspace L c then 32 # re_sub_spaces L (dropWhile (py_isspace L) cs)
      else c # re_sub_spaces L cs)"
  by pat_completeness auto
termination
proof (relation "measure (\<lambda>(L, s). length s)")
  show "wf (measure (\<lambda>(L, s). length s))" by simp
next
  fix L :: unicode_lib and c :: nat and cs :: pystr
  show "((L, dropWhile (py_isspace L) cs), (L, c # cs)) \<in> measure (\<lambda>(L, s). length s)"
    using length_dropWhile_le [of "py_isspace L" cs] by simp
next
  fix L :: unicode_lib and c :: nat and cs :: pystr
  show "((L, cs), (L, c # cs)) \<in> measure (\<lambda>(L, s). length s)" by simp
qed

text \<open>\<open>text.replace(old, new)\<close> for a single character \<open>old\<close>.\<close>

definition replace_char :: "nat \<Rightarrow> nat \<Rightarrow> pystr \<Rightarrow> pystr" where
  "replace_char old new s = map (\<lambda>c. if c = old then new else c) s"

section \<open>The genre normalizer (analysis/genre\_normalize.py)\<close>

definition HYPHEN_PREFIXES :: "pystr list" where
  "HYPHEN_PREFIXES = [
     str ''acid'',
     str ''afro'',
     str ''alt'',
     str ''anti'',
     str ''art'',
     str ''avant'',
     str ''dark'',
     str ''dream'',
     str ''electro'',
     str ''euro'',
     str ''folk'',
     str ''garage'',
     str ''hard'',
     str ''hyper'',
     str ''indie'',
     str ''jazz'',
     str ''math'',
     str ''neo'',
     str ''noise'',
     str ''nu'',
     str ''post'',
     str ''power'',
     str ''pre'',
     str ''proto'',
     str ''psycho'',
     str ''slow'',
     str ''space'',
     str ''speed'',
     str ''stoner'',
     str ''synth'',
     str ''trip'']"

definition ALIAS_MAP :: "(pystr \<times> pystr) list" where
  "ALIAS_MAP = [
     (str ''rnb'', str ''r&b''),
     (str ''r and b'', str ''r&b''),
     (str ''r n b'', str ''r&b''),
     (str ''rhythm and blues'', str ''r&b''),
     (str ''rhythmandblues'', str ''r&b''),
     (str ''rock n roll'', str ''rock and roll''),
     (str ''rock & roll'', str ''rock and roll''),
     (str ''rock n'' @ [39] @ str '' roll'', str ''rock and roll''),
     (str ''rock'' @ [39] @ str ''n'' @ [39] @ str ''roll'', str ''rock and roll''),
     (str ''rocknroll'', str ''rock and roll''),
     (str ''rock roll'', str ''rock and roll''),
     (str ''hip hop'', str ''hip-hop''),
     (str ''hiphop'', str ''hip-hop''),
     (str ''hip-hop/rap'', str ''hip-hop''),
     (str ''hip hop/rap'', str ''hip-hop''),
     (str ''trip hop'', str ''trip-hop''),
     (str ''triphop'', str ''trip-hop''),
     (str ''lo fi'', str ''lo-fi''),
     (str ''lofi'', str ''lo-fi''),
     (str ''low fi'', str ''lo-fi''),
     (str ''low-fi'', str ''lo-fi''),
     (str ''electronica'', str ''electronic''),
     (str ''drum and bass'', str ''drum & bass''),
     (str ''drum n bass'', str ''drum & bass''),
     (str ''drum'' @ [39] @ str ''n'' @ [39] @ str ''bass'', str ''drum & bass''),
     (str ''drumnbass'', str ''drum & bass''),
     (str ''dnb'', str ''drum & bass''),
     (str ''d&b'', str ''drum & bass''),
     (str ''d and b'', str ''drum & bass''),
     (str ''shoe gaze'', str ''shoegaze''),
     (str ''shoe-gaze'', str ''shoegaze''),
     (str ''synth pop'', str ''synth-pop''),
     (str ''synthpop'', str ''synth-pop''),
     (str ''post punk'', str ''post-punk''),
     (str ''postpunk'', str ''post-punk''),
     (str ''post rock'', str ''post-rock''),
     (str ''postrock'', str ''post-rock''),
     (str ''newwave'', str ''new wave''),
     (str ''new-wave'', str ''new wave''),
     (str ''pop punk'', str ''pop-punk''),
     (str ''poppunk'', str ''pop-punk''),
     (str ''dream pop'', str ''dream-pop''),
     (str ''dreampop'', str ''dream-pop''),
     (str ''brit pop'', str ''britpop''),
     (str ''brit-pop'', str ''britpop''),
     (str ''math rock'', str ''math-rock''),
     (str ''mathrock'', str ''math-rock''),
     (str ''noise rock'', str ''noise-rock''),
     (str ''noiserock'', str ''noise-rock''),
     (str ''space rock'', str ''space-rock''),
     (str ''spacerock'', str ''space-rock''),
     (str ''stoner rock'', str ''stoner-rock''),
     (str ''stonerrock'', str ''stoner-rock''),
     (str ''nu metal'', str ''nu-metal''),
     (str ''numetal'', str ''nu-metal''),
     (str ''nu-metal'', str ''nu-metal''),
     (str ''n'' @ [252] @ str '' metal'', str ''nu-metal''),
     (str ''n'' @ [252] @ str ''-metal'', str ''nu-metal''),
     (str ''art rock'', str ''art-rock''),
     (str ''artrock'', str ''art-rock''),
     (str ''indie rock'', str ''indie-rock''),
     (str ''indierock'', str ''indie-rock''),
     (str ''indie pop'', str ''indie-pop''),
     (str ''indiepop'', str ''indie-pop''),
     (str ''alt country'', str ''alt-country''),
     (str ''altcountry'', str ''alt-country''),
     (str ''alternative country'', str ''alt-country''),
     (str ''power pop'', str ''power-pop''),
     (str ''powerpop'', str ''power-pop''),
     (str ''garage rock'', str ''garage-rock''),
     (str ''garagerock'', str ''garage-rock''),
     (str ''hard rock'', str ''hard-rock''),
     (str ''hardrock'', str ''hard-rock''),
     (str ''acid house'', str ''acid-house''),
     (str ''acidhouse'', str ''acid-house''),
     (str ''acid jazz'', str ''acid-jazz''),
     (str ''acidjazz'', str ''acid-jazz''),
     (str ''electro house'', str ''electro-house''),
     (str ''electrohouse'', str ''electro-house''),
     (str ''dark wave'', str ''darkwave''),
     (str ''dark-wave'', str ''darkwave''),
     (str ''cold wave'', str ''coldwave''),
     (str ''cold-wave'', str ''coldwave''),
     (str ''slow core'', str ''slowcore''),
     (str ''slow-core'', str ''slowcore''),
     (str ''speed metal'', str ''speed-metal''),
     (str ''speedmetal'', str ''speed-metal''),
     (str ''power metal'', str ''power-metal''),
     (str ''powermetal'', str ''power-metal''),
     (str ''thrash metal'', str ''thrash-metal''),
     (str ''thrashmetal'', str ''thrash-metal''),
     (str ''death metal'', str ''death-metal''),
     (str ''deathmetal'', str ''death-metal''),
     (str ''black metal'', str ''black-metal''),
     (str ''blackmetal'', str ''black-metal''),
     (str ''doom metal'', str ''doom-metal''),
     (str ''doommetal'', str ''doom-metal''),
     (str ''heavy metal'', str ''heavy-metal''),
     (str ''heavymetal'', str ''heavy-metal''),
     (str ''folk rock'', str ''folk-rock''),
     (str ''folkrock'', str ''folk-rock''),
     (str ''folk punk'', str ''folk-punk''),
     (str ''folkpunk'', str ''folk-punk''),
     (str ''psychedelic rock'', str ''psychedelic-rock''),
     (str ''psychedelicrock'', str ''psychedelic-rock''),
     (str ''progressive rock'', str ''progressive-rock''),
     (str ''progressiverock'', str ''progressive-rock''),
     (str ''prog rock'', str ''progressive-rock''),
     (str ''prog-rock'', str ''progressive-rock''),
     (str ''progrock'', str ''progressive-rock''),
     (str ''progressive metal'', str ''progressive-metal''),
     (str ''progressivemetal'', str ''progressive-metal''),
     (str ''prog metal'', str ''progressive-metal''),
     (str ''prog-metal'', str ''progressive-metal''),
     (str ''progmetal'', str ''progressive-metal''),
     (str ''00s'', str ''2000s''),
     (str ''10s'', str ''2010s''),
     (str ''20s'', str ''2020s''),
     (str ''the 80s'', str ''80s''),
     (str ''the 90s'', str ''90s''),
     (str ''the 70s'', str ''70s''),
     (str ''the 60s'', str ''60s''),
     (str ''uk'', str ''british''),
     (str ''singer songwriter'', str ''singer-songwriter''),
     (str ''singersongwriter'', str ''singer-songwriter'')]"

definition normalize_unicode :: "unicode_lib \<Rightarrow> pystr \<Rightarrow> pystr" where
  "normalize_unicode L text =
     (let text = replace_char 8217 39 (replace_char 8216 39 text);
          text = replace_char 8221 34 (replace_char 8220 34 text);
          normalized = nfkd L text
      in filter (\<lambda>c. combining L c = 0) normalized)"

definition normalize_separators :: "unicode_lib \<Rightarrow> pystr \<Rightarrow> pystr" where
  "normalize_separators L text = re_sub_spaces L text"

text \<open>
  The \<open>while i < len(words)\<close> loop of \<open>_apply_hyphen_rules\<close>, with its index \<open>i\<close> and
  its accumulator \<open>result\<close>.
\<close>

function hyphen_loop :: "pystr list \<Rightarrow> nat \<Rightarrow> pystr list \<Rightarrow> pystr list" where
  "hyphen_loop words i result =
     (if i < length words then
        (let word = words ! i in
         if i + 1 < length words \<and> word \<in> set HYPHEN_PREFIXES
         then hyphen_loop words (i + 2) (result @ [word @ str ''-'' @ words ! (i + 1)])
         else hyphen_loop words (i + 1) (result @ [word]))
      else result)"
  by pat_completeness auto
termination
  by (relation "measure (\<lambda>(words, i, result). length words - i)") auto

definition apply_hyphen_rules :: "unicode_lib \<Rightarrow> pystr \<Rightarrow> pystr" where
  "apply_hyphen_rules L text =
     (let words = py_split L text in
      if length words < 2 then text
      else py_join (str '' '') (hyphen_loop words 0 []))"

definition normalize_genre :: "unicode_lib \<Rightarrow> pystr \<Rightarrow> pystr" where
  "normalize_genre L raw =
     (if raw = [] \<or> py_strip L raw = [] then []
      else
        let text = py_lower L (py_strip L raw);
            text = normalize_unicode L text;
            text = normalize_separators L text
        in case map_of ALIAS_MAP text of
             Some canonical \<Rightarrow> canonical
           | None \<Rightarrow>
               (let text = apply_hyphen_rules L text
                in case map_of ALIAS_MAP text of
                     Some canonical \<Rightarrow> canonical
                   | None \<Rightarrow> text))"

text \<open>
  A fragment of CPython's tables, for evaluating the model on concrete inputs: exact on
  strings made of ASCII characters and U+0301 (COMBINING ACUTE ACCENT, combining class 230,
  no decomposition, no case mapping, not whitespace). The ASCII whitespace characters of
  \<open>str.isspace\<close> are TAB, LF, VT, FF, CR, the separators 0x1C to 0x1F and the space.
\<close>

definition ascii_isspace :: "nat \<Rightarrow> bool" where
  "ascii_isspace c \<longleftrightarrow> (9 \<le> c \<and> c \<le> 13) \<or> (28 \<le> c \<and> c \<le> 32)"

definition ascii_lower :: "nat \<Rightarrow> nat" where
  "ascii_lower c = (if 65 \<le> c \<and> c \<le> 90 then c + 32 else c)"

definition ucd_fragment :: unicode_lib where
  "ucd_fragment = \<lparr> py_isspace = ascii_isspace,
                    py_lower = map ascii_lower,
                    nfkd = (\<lambda>s. s),
                    combining = (\<lambda>c. if c = 769 then 230 else 0) \<rparr>"

text \<open>
  \<open>find_duplicate_clusters\<close>. A Python \<open>dict\<close> keeps its keys in insertion order, so
  \<open>canonical_to_raws\<close> is an association list; \<open>dict_append\<close> is the body
  \<open>if canonical not in d: d[canonical] = []; d[canonical].append(raw)\<close>.
  \<open>sorted(d.items())\<close> compares the (key, list) tuples: strings by code points, tuples
  and lists lexicographically.
\<close>

fun dict_append :: "(pystr \<times> pystr list) list \<Rightarrow> pystr \<Rightarrow> pystr \<Rightarrow> (pystr \<times> pystr list) list" where
  "dict_append [] canonical raw = [(canonical, [raw])]"
| "dict_append ((k, variants) # d) canonical raw =
     (if k = canonical then (k, variants @ [raw]) # d
      else (k, variants) # dict_append d canonical raw)"

definition group_raw :: "unicode_lib \<Rightarrow> (pystr \<times> pystr list) list \<Rightarrow> pystr \<Rightarrow> (pystr \<times> pystr list) list" where
  "group_raw L canonical_to_raws raw =
     (let canonical = normalize_genre L raw in
      if canonical = [] then canonical_to_raws
      else dict_append canonical_to_raws canonical raw)"

definition find_duplicate_clusters :: "unicode_lib \<Rightarrow> pystr list \<Rightarrow> (pystr \<times> pystr list) list" where
  "find_duplicate_clusters L raw_genres =
     (let canonical_to_raws = foldl (group_raw L) [] raw_genres
      in filter (\<lambda>(canonical, variants). 2 \<le> length variants) (sort canonical_to_raws))"

subsection \<open>Reference definitions for the statements\<close>

text \<open>Steps 1 to 3 of \<open>normalize_genre\<close>: the canonicalized text the alias table is asked about.\<close>

definition canonical_text :: "unicode_lib \<Rightarrow> pystr \<Rightarrow> pystr" where
  "canonical_text L raw =
     normalize_separators L (normalize_unicode L (py_lower L (py_strip L raw)))"

text \<open>
  The hyphenation scan as the specification words it, over the token list: a token that
  passes the prefix test and has a successor is joined with it and both are consumed. The
  prefix test is a parameter, so that the test of the code (the token itself is in the
  set) and the test of the specification text (the token's lowercase form is in the set)
  can be compared.
\<close>

fun join_pairs :: "(pystr \<Rightarrow> bool) \<Rightarrow> pystr list \<Rightarrow> pystr list" where
  "join_pairs is_prefix (w # n # rest) =
     (if is_prefix w then (w @ str ''-'' @ n) # join_pairs is_prefix rest
      else w # join_pairs is_prefix (n # rest))"
| "join_pairs is_prefix [w] = [w]"
| "join_pairs is_prefix [] = []"

definition hyphenation_spec :: "(pystr \<Rightarrow> bool) \<Rightarrow> unicode_lib \<Rightarrow> pystr \<Rightarrow> pystr" where
  "hyphenation_spec is_prefix L text =
     (let tokens = py_split L text in
      if length tokens < 2 then text
      else py_join (str '' '') (join_pairs is_prefix tokens))"

definition exact_prefix :: "pystr \<Rightarrow> bool" where
  "exact_prefix w \<longleftrightarrow> w \<in> set HYPHEN_PREFIXES"

definition lowercase_prefix :: "unicode_lib \<Rightarrow> pystr \<Rightarrow> bool" where
  "lowercase_prefix L w \<longleftrightarrow> py_lower L w \<in> set HYPHEN_PREFIXES"

text \<open>
  What every Unicode library does on ASCII: the ASCII whitespace characters, lowercasing
  of A to Z only, no decomposition, no combining marks.
\<close>

definition is_ascii :: "pystr \<Rightarrow> bool" where
  "is_ascii s \<longleftrightarrow> list_all (\<lambda>c. c < 128) s"

definition ascii_faithful :: "unicode_lib \<Rightarrow> bool" where
  "ascii_faithful L \<longleftrightarrow>
     (\<forall>c < 128. py_isspace L c = ascii_isspace c) \<and>
     (\<forall>s. is_ascii s \<longrightarrow> py_lower L s = map ascii_lower s) \<and>
     (\<forall>s. is_ascii s \<longrightarrow> nfkd L s = s) \<and>
     (\<forall>c < 128. combining L c = 0)"

section \<open>The playlist filter composer (db/queries.py)\<close>

text \<open>
  The database lookups are the collaborator: each returns a list of track identifiers
  (repeats possible). Two runtime choices are parameters as well: the order in which
  \<open>list(result_set)\<close> enumerates a set, and the permutation \<open>random.shuffle\<close> picks.
\<close>

record collaborator =
  get_tracks_by_title :: "pystr \<Rightarrow> int list"
  get_tracks_by_genres :: "pystr list \<Rightarrow> int list"
  get_tracks_by_genre_groups :: "pystr list \<Rightarrow> int list"
  get_tracks_by_bpm_range :: "int \<Rightarrow> int \<Rightarrow> int list"
  get_tracks_by_artists :: "pystr list \<Rightarrow> int list"
  get_tracks_by_similar_artists :: "pystr \<Rightarrow> int list"
  list_of_set :: "int set \<Rightarrow> int list"
  random_shuffle :: "int list \<Rightarrow> int list"

definition runtime_ok :: "collaborator \<Rightarrow> bool" where
  "runtime_ok C \<longleftrightarrow>
     (\<forall>S. finite S \<longrightarrow> set (list_of_set C S) = S \<and> distinct (list_of_set C S)) \<and>
     (\<forall>xs. mset (random_shuffle C xs) = mset xs)"

text \<open>The keyword arguments of \<open>build_playlist_query\<close>; \<open>None\<close> is the default.\<close>

record filters =
  title :: "pystr option"
  genres :: "pystr list option"
  genre_groups :: "pystr list option"
  bpm_range :: "(int \<times> int) option"
  artists :: "pystr list option"
  similar_to :: "pystr option"
  limit :: "int option"
  shuffle :: bool

text \<open>
  Python truthiness, as the \<open>if x:\<close> tests use it: \<open>None\<close>, the empty string, the
  empty list and the integer 0 are false; a pair is true.
\<close>

definition truthy :: "'a list option \<Rightarrow> bool" where
  "truthy x \<longleftrightarrow> (case x of None \<Rightarrow> False | Some v \<Rightarrow> v \<noteq> [])"

definition truthy_int :: "int option \<Rightarrow> bool" where
  "truthy_int x \<longleftrightarrow> (case x of None \<Rightarrow> False | Some v \<Rightarrow> v \<noteq> 0)"

text \<open>\<open>ids if acc is None else acc & ids\<close> and \<open>ids if pool is None else pool | ids\<close>.\<close>

definition intersect_into :: "int set option \<Rightarrow> int set \<Rightarrow> int set option" where
  "intersect_into acc ids = (case acc of None \<Rightarrow> Some ids | Some r \<Rightarrow> Some (r \<inter> ids))"

definition union_into :: "int set option \<Rightarrow> int set \<Rightarrow> int set option" where
  "union_into pool ids = (case pool of None \<Rightarrow> Some ids | Some p \<Rightarrow> Some (p \<union> ids))"

definition genre_pool :: "collaborator \<Rightarrow> filters \<Rightarrow> int set option" where
  "genre_pool C q =
     (let pool = None;
          pool = (case genres q of
                    Some g \<Rightarrow> if g \<noteq> [] then Some (set (get_tracks_by_genres C g)) else pool
                  | None \<Rightarrow> pool);
          pool = (case genre_groups q of
                    Some g \<Rightarrow> if g \<noteq> [] then union_into pool (set (get_tracks_by_genre_groups C g)) else pool
                  | None \<Rightarrow> pool)
      in pool)"

definition artist_pool :: "collaborator \<Rightarrow> filters \<Rightarrow> int set option" where
  "artist_pool C q =
     (let pool = None;
          pool = (case artists q of
                    Some a \<Rightarrow> if a \<noteq> [] then Some (set (get_tracks_by_artists C a)) else pool
                  | None \<Rightarrow> pool);
          pool = (case similar_to q of
                    Some a \<Rightarrow> if a \<noteq> [] then union_into pool (set (get_tracks_by_similar_artists C a)) else pool
                  | None \<Rightarrow> pool)
      in pool)"

text \<open>The accumulator \<open>result_set\<close> when the four filter blocks have run.\<close>

definition result_set :: "collaborator \<Rightarrow> filters \<Rightarrow> int set option" where
  "result_set C q =
     (let acc = None;
          acc = (case title q of
                   Some t \<Rightarrow> if t \<noteq> [] then intersect_into acc (set (get_tracks_by_title C t)) else acc
                 | None \<Rightarrow> acc);
          acc = (case genre_pool C q of
                   Some pool \<Rightarrow> intersect_into acc pool
                 | None \<Rightarrow> acc);
          acc = (case bpm_range q of
                   Some (min_bpm, max_bpm) \<Rightarrow>
                     intersect_into acc (set (get_tracks_by_bpm_range C min_bpm max_bpm))
                 | None \<Rightarrow> acc);
          acc = (case artist_pool C q of
                   Some pool \<Rightarrow> intersect_into acc pool
                 | None \<Rightarrow> acc)
      in acc)"

text \<open>
  \<open>xs[:n]\<close>: the first \<open>n\<close> elements; a negative \<open>n\<close> counts from the end.
\<close>

definition slice_to :: "'a list \<Rightarrow> int \<Rightarrow> 'a list" where
  "slice_to xs n = (if 0 \<le> n then take (nat n) xs else take (nat (int (length xs) + n)) xs)"

definition build_playlist_query :: "collaborator \<Rightarrow> filters \<Rightarrow> int list" where
  "build_playlist_query C q =
     (case result_set C q of
        None \<Rightarrow> []
      | Some s \<Rightarrow>
          (let result_list = list_of_set C s;
               result_list = (if shuffle q then random_shuffle C result_list else result_list);
               result_list = (case limit q of
                                Some n \<Rightarrow> if n \<noteq> 0 then slice_to result_list n else result_list
                              | None \<Rightarrow> result_list)
           in result_list))"

text \<open>
  The dimensions a query requests, each with its set of identifiers, in the words of the
  specification: the title set, the genre pool, the bpm set, the artist pool.
\<close>

definition lookup_or_empty :: "('a list \<Rightarrow> int list) \<Rightarrow> 'a list option \<Rightarrow> int set" where
  "lookup_or_empty f x = (case x of None \<Rightarrow> {} | Some v \<Rightarrow> if v = [] then {} else set (f v))"

definition requested_sets :: "collaborator \<Rightarrow> filters \<Rightarrow> int set list" where
  "requested_sets C q =
     (if truthy (title q) then [lookup_or_empty (get_tracks_by_title C) (title q)] else []) @
     (if truthy (genres q) \<or> truthy (genre_groups q)
      then [lookup_or_empty (get_tracks_by_genres C) (genres q)
            \<union> lookup_or_empty (get_tracks_by_genre_groups C) (genre_groups q)] else []) @
     (case bpm_range q of
        Some (lo, hi) \<Rightarrow> [set (get_tracks_by_bpm_range C lo hi)]
      | None \<Rightarrow> []) @
     (if truthy (artists q) \<or> truthy (similar_to q)
      then [lookup_or_empty (get_tracks_by_artists C) (artists q)
            \<union> lookup_or_empty (get_tracks_by_similar_artists C) (similar_to q)] else [])"

text \<open>A concrete collaborator over a three-track library, for evaluation.\<close>

definition demo_db :: collaborator where
  "demo_db = \<lparr> get_tracks_by_title = (\<lambda>t. [1, 2, 2, 3]),
               get_tracks_by_genres = (\<lambda>g. [1, 2]),
               get_tracks_by_genre_groups = (\<lambda>g. [2, 3]),
               get_tracks_by_bpm_range = (\<lambda>lo hi. [2, 3, 4]),
               get_tracks_by_artists = (\<lambda>a. [1, 2, 3]),
               get_tracks_by_similar_artists = (\<lambda>a. [4]),
               list_of_set = sorted_list_of_set,
               random_shuffle = rev \<rparr>"

definition no_filters :: filters where
  "no_filters = \<lparr> title = None, genres = None, genre_groups = None, bpm_range = None,
                  artists = None, similar_to = None, limit = None, shuffle = True \<rparr>"

text \<open>Concrete queries over the demonstration library.\<close>

definition demo_query :: filters where
  "demo_query = no_filters\<lparr> title := Some (str ''a''), genres := Some [str ''jazz''],
                             genre_groups := Some [str ''rock''] \<rparr>"

definition empty_lists_query :: filters where
  "empty_lists_query = no_filters\<lparr> genres := Some [], genre_groups := Some [],
                                    artists := Some [], limit := Some 5 \<rparr>"

definition limited_query :: filters where
  "limited_query = no_filters\<lparr> title := Some (str ''a''), limit := Some 2 \<rparr>"

section \<open>Properties of the playlist filter composer\<close>


lemma genre_pool_eq:
  "genre_pool C q =
     (if truthy (genres q) \<or> truthy (genre_groups q)
      then Some (lookup_or_empty (get_tracks_by_genres C) (genres q)
                 \<union> lookup_or_empty (get_tracks_by_genre_groups C) (genre_groups q))
      else None)"
  by (simp add: genre_pool_def truthy_def lookup_or_empty_def union_into_def split: option.split)

lemma artist_pool_eq:
  "artist_pool C q =
     (if truthy (artists q) \<or> truthy (similar_to q)
      then Some (lookup_or_empty (get_tracks_by_artists C) (artists q)
                 \<union> lookup_or_empty (get_tracks_by_similar_artists C) (similar_to q))
      else None)"
  by (simp add: artist_pool_def truthy_def lookup_or_empty_def union_into_def split: option.split)

lemma result_set_eq:
  "result_set C q =
     (if requested_sets C q = [] then None else Some (\<Inter> (set (requested_sets C q))))"
  unfolding result_set_def genre_pool_eq artist_pool_eq requested_sets_def
  by (auto simp: truthy_def lookup_or_empty_def intersect_into_def Let_def split: option.split)

lemma lookup_or_empty_finite: "finite (lookup_or_empty f x)"
  by (simp add: lookup_or_empty_def split: option.split)

lemma requested_sets_finite: "s \<in> set (requested_sets C q) \<Longrightarrow> finite s"
  by (auto simp: requested_sets_def lookup_or_empty_finite split: if_splits option.splits)

lemma result_set_finite: "result_set C q = Some s \<Longrightarrow> finite s"
proof -
  assume h: "result_set C q = Some s"
  then have ne: "requested_sets C q \<noteq> []" and s: "s = \<Inter> (set (requested_sets C q))"
    by (auto simp: result_set_eq split: if_splits)
  then obtain x where x: "x \<in> set (requested_sets C q)"
    by (cases "requested_sets C q") auto
  then have "s \<subseteq> x" using s by auto
  then show ?thesis using requested_sets_finite [OF x] by (rule finite_subset)
qed

lemma result_set_limit [simp]: "result_set C (q\<lparr>limit := n\<rparr>) = result_set C q"
  by (simp add: result_set_def genre_pool_def artist_pool_def)

lemma result_set_shuffle [simp]: "result_set C (q\<lparr>shuffle := b\<rparr>) = result_set C q"
  by (simp add: result_set_def genre_pool_def artist_pool_def)

lemma playlist_subset: "result_set C q = Some s \<Longrightarrow> runtime_ok C \<Longrightarrow> set (build_playlist_query C q) \<subseteq> s"
proof -
  assume h: "result_set C q = Some s" and ok: "runtime_ok C"
  have fin: "finite s" using h by (rule result_set_finite)
  have a: "set (list_of_set C s) = s" using ok fin by (simp add: runtime_ok_def)
  have b: "\<And>xs. set (random_shuffle C xs) = set xs"
    using ok by (metis runtime_ok_def set_mset_mset)
  have c: "\<And>xs n x. x \<in> set (slice_to xs n) \<Longrightarrow> x \<in> set (xs::int list)"
    by (auto simp: slice_to_def dest: in_set_takeD split: if_splits)
  show ?thesis
    using h a b by (auto simp: build_playlist_query_def Let_def split: option.splits dest!: c)
qed

lemma playlist_set_nolimit:
  "result_set C q = Some s \<Longrightarrow> runtime_ok C \<Longrightarrow> \<not> truthy_int (limit q) \<Longrightarrow> set (build_playlist_query C q) = s"
proof -
  assume h: "result_set C q = Some s" and ok: "runtime_ok C" and l: "\<not> truthy_int (limit q)"
  have fin: "finite s" using h by (rule result_set_finite)
  have a: "set (list_of_set C s) = s" using ok fin by (simp add: runtime_ok_def)
  have b: "\<And>xs. set (random_shuffle C xs) = set xs"
    using ok by (metis runtime_ok_def set_mset_mset)
  show ?thesis
    using h a b l by (auto simp: build_playlist_query_def truthy_int_def Let_def split: option.splits)
qed

lemma demo_ok: "runtime_ok demo_db"
  by (simp add: runtime_ok_def demo_db_def)


lemma requested_sets_add_bpm:
  "bpm_range q = None \<Longrightarrow>
   set (requested_sets C (q\<lparr>bpm_range := Some (lo, hi)\<rparr>)) =
   insert (set (get_tracks_by_bpm_range C lo hi)) (set (requested_sets C q))"
  by (auto simp: requested_sets_def)

lemma demo_query_sets: "requested_sets demo_db demo_query = [{1, 2, 3}, {1, 2, 3}]"
  by (auto simp: requested_sets_def demo_query_def no_filters_def demo_db_def truthy_def
      lookup_or_empty_def str_def)

text \<open>
  C3 (amended). The accumulator, that is the set of identifiers before shuffle and limit, is
  the intersection of the sets of exactly the requested dimensions when at least one
  dimension is requested, and is absent (the result is empty) when none is; without an
  effective limit the returned list has exactly these elements; and adding a
  \<open>bpm_range\<close> to a query that already requests a dimension returns only identifiers of
  the set the query had before.
\<close>

theorem filter_composition:
  "result_set C q =
     (if requested_sets C q = [] then None else Some (\<Inter> (set (requested_sets C q)))) \<and>
   (runtime_ok C \<longrightarrow> requested_sets C q \<noteq> [] \<longrightarrow> \<not> truthy_int (limit q) \<longrightarrow>
      set (build_playlist_query C q) = \<Inter> (set (requested_sets C q))) \<and>
   (runtime_ok C \<longrightarrow> requested_sets C q \<noteq> [] \<longrightarrow> bpm_range q = None \<longrightarrow>
      set (build_playlist_query C (q\<lparr>bpm_range := Some (lo, hi)\<rparr>))
        \<subseteq> \<Inter> (set (requested_sets C q)))"
proof (intro conjI impI)
  show "result_set C q =
     (if requested_sets C q = [] then None else Some (\<Inter> (set (requested_sets C q))))"
    by (rule result_set_eq)
next
  assume "runtime_ok C" "requested_sets C q \<noteq> []" "\<not> truthy_int (limit q)"
  then show "set (build_playlist_query C q) = \<Inter> (set (requested_sets C q))"
    by (simp add: playlist_set_nolimit result_set_eq)
next
  assume ok: "runtime_ok C" and ne: "requested_sets C q \<noteq> []" and b: "bpm_range q = None"
  let ?q = "q\<lparr>bpm_range := Some (lo, hi)\<rparr>"
  have s: "set (requested_sets C ?q) =
      insert (set (get_tracks_by_bpm_range C lo hi)) (set (requested_sets C q))"
    using b by (rule requested_sets_add_bpm)
  then have "requested_sets C ?q \<noteq> []" by auto
  then have "result_set C ?q = Some (\<Inter> (set (requested_sets C ?q)))"
    by (simp add: result_set_eq)
  then have "set (build_playlist_query C ?q) \<subseteq> \<Inter> (set (requested_sets C ?q))"
    using ok by (rule playlist_subset)
  also have "\<dots> \<subseteq> \<Inter> (set (requested_sets C q))"
    unfolding s by auto
  finally show "set (build_playlist_query C ?q) \<subseteq> \<Inter> (set (requested_sets C q))" .
qed

theorem filter_composition_witness:
  "runtime_ok demo_db \<and> requested_sets demo_db demo_query \<noteq> [] \<and>
   \<not> truthy_int (limit demo_query) \<and> bpm_range demo_query = None \<and>
   result_set demo_db demo_query = Some {1, 2, 3} \<and>
   set (build_playlist_query demo_db demo_query) = {1, 2, 3} \<and>
   set (build_playlist_query demo_db (demo_query\<lparr>bpm_range := Some (60, 200)\<rparr>)) \<subseteq> {1, 2, 3}"
proof -
  have h1: "runtime_ok demo_db" "requested_sets demo_db demo_query \<noteq> []"
    by (simp_all add: demo_ok demo_query_sets)
  have h2: "\<not> truthy_int (limit demo_query)" "bpm_range demo_query = None"
    by (simp_all add: truthy_int_def demo_query_def no_filters_def)
  show ?thesis
    using h1 h2 filter_composition [of demo_db demo_query 60 200]
    by (simp add: demo_query_sets)
qed

text \<open>
  C3 as stated fails when the otherwise identical query requests nothing: that query
  returns the empty list, and with a \<open>bpm_range\<close> added it returns the bpm lookup.
\<close>

theorem bpm_adds_to_unconstrained_query:
  "\<not> set (build_playlist_query demo_db (no_filters\<lparr>bpm_range := Some (60, 200)\<rparr>))
       \<subseteq> set (build_playlist_query demo_db no_filters)"
  by (simp add: build_playlist_query_def result_set_def genre_pool_def artist_pool_def
      intersect_into_def demo_db_def no_filters_def)

text \<open>
  C6. When no dimension is requested (the title and the seed artist absent or empty, the
  three lists absent or empty, no bpm range) the result is the empty list, whatever the
  collaborator returns and whatever \<open>limit\<close> and \<open>shuffle\<close> are.
\<close>

theorem unconstrained_query_is_empty:
  "\<not> truthy (title q) \<Longrightarrow> \<not> truthy (genres q) \<Longrightarrow> \<not> truthy (genre_groups q) \<Longrightarrow>
   bpm_range q = None \<Longrightarrow> \<not> truthy (artists q) \<Longrightarrow> \<not> truthy (similar_to q) \<Longrightarrow>
   build_playlist_query C q = []"
  by (simp add: build_playlist_query_def result_set_eq requested_sets_def)

theorem unconstrained_query_is_empty_witness:
  "\<not> truthy (title empty_lists_query) \<and> \<not> truthy (genres empty_lists_query) \<and>
   \<not> truthy (genre_groups empty_lists_query) \<and> bpm_range empty_lists_query = None \<and>
   \<not> truthy (artists empty_lists_query) \<and> \<not> truthy (similar_to empty_lists_query) \<and>
   build_playlist_query demo_db empty_lists_query = []"
proof -
  have h: "\<not> truthy (title empty_lists_query)" "\<not> truthy (genres empty_lists_query)"
    "\<not> truthy (genre_groups empty_lists_query)" "bpm_range empty_lists_query = None"
    "\<not> truthy (artists empty_lists_query)" "\<not> truthy (similar_to empty_lists_query)"
    by (simp_all add: empty_lists_query_def no_filters_def truthy_def)
  show ?thesis
    using h unconstrained_query_is_empty [OF h, of demo_db] by simp
qed

text \<open>
  C7 (amended). With a positive \<open>limit\<close> the returned list is the first \<open>limit\<close>
  elements of the (optionally shuffled) result list, so its length is at most \<open>limit\<close>;
  a \<open>limit\<close> of 0 is the same as no limit.
\<close>

theorem positive_limit_truncates:
  "limit q = Some n \<Longrightarrow>
   (0 < n \<longrightarrow>
      build_playlist_query C q = take (nat n) (build_playlist_query C (q\<lparr>limit := None\<rparr>)) \<and>
      int (length (build_playlist_query C q)) \<le> n) \<and>
   (n = 0 \<longrightarrow> build_playlist_query C q = build_playlist_query C (q\<lparr>limit := None\<rparr>))"
  by (auto simp: build_playlist_query_def slice_to_def Let_def split: option.splits)

lemma limited_query_result: "build_playlist_query demo_db limited_query = [3, 2]"
  by (simp add: build_playlist_query_def result_set_def genre_pool_def artist_pool_def
      intersect_into_def demo_db_def limited_query_def no_filters_def slice_to_def str_def)

theorem positive_limit_truncates_witness:
  "limit limited_query = Some 2 \<and> (0::int) < 2 \<and>
   build_playlist_query demo_db limited_query = [3, 2] \<and>
   int (length (build_playlist_query demo_db limited_query)) \<le> 2"
proof -
  have h: "limit limited_query = Some 2"
    by (simp add: limited_query_def no_filters_def)
  show ?thesis
    using h positive_limit_truncates [OF h, of demo_db]
    by (simp add: limited_query_result)
qed

text \<open>
  C7 as stated fails for the supplied limit 0: the test \<open>if limit:\<close> is false and the
  whole list comes back.
\<close>

theorem zero_limit_returns_everything:
  "\<not> int (length (build_playlist_query demo_db
          (no_filters\<lparr> title := Some (str ''a''), limit := Some 0 \<rparr>))) \<le> 0"
  by (simp add: build_playlist_query_def result_set_def genre_pool_def artist_pool_def
      intersect_into_def demo_db_def no_filters_def str_def)

text \<open>
  C10. The returned list never repeats an identifier, whatever the lookups return (lists
  with repeats included) and whether or not it is shuffled or truncated: the accumulator is
  a set, its enumeration lists each element once, and a permutation and a prefix keep that.
\<close>

theorem playlist_has_no_duplicates:
  "runtime_ok C \<Longrightarrow> distinct (build_playlist_query C q)"
proof (cases "result_set C q")
  case None
  then show ?thesis by (simp add: build_playlist_query_def)
next
  case (Some s)
  assume ok: "runtime_ok C"
  have fin: "finite s" using Some by (rule result_set_finite)
  have a: "distinct (list_of_set C s)" using ok fin by (simp add: runtime_ok_def)
  have b: "\<And>xs. distinct (random_shuffle C xs) = distinct xs"
    using ok by (metis runtime_ok_def mset_eq_imp_distinct_iff)
  have c: "\<And>xs n. distinct xs \<Longrightarrow> distinct (slice_to xs n :: int list)"
    by (simp add: slice_to_def)
  show ?thesis
    using Some a b c by (auto simp: build_playlist_query_def Let_def split: option.splits)
qed

theorem playlist_has_no_duplicates_witness:
  "runtime_ok demo_db \<and> get_tracks_by_title demo_db (str ''a'') = [1, 2, 2, 3] \<and>
   distinct (build_playlist_query demo_db limited_query)"
  using playlist_has_no_duplicates [OF demo_ok, of limited_query] demo_ok
  by (simp add: demo_db_def)

end
